theory Spec2Isabelle
  imports Main "HOL-Library.Sublist"
begin

section \<open>The chat client of src/App.tsx: submission and polling\<close>

text \<open>
  The component keeps a conversation (a list of messages), sends each user message to
  a webhook and, when the webhook answers with a job identifier, polls a status
  endpoint until a final answer, an error or the retry ceiling. The model below is a
  shallow embedding of \<^verbatim>\<open>pollForResponse\<close> and \<^verbatim>\<open>handleSubmit\<close>: the React state is a
  record passed through explicitly, the two endpoints are functions of an environment,
  thrown values are the left summand of a sum, and every network call, timer and
  \<^verbatim>\<open>setMessages\<close> is written to a log in the order the code performs it.
\<close>

subsection \<open>JavaScript values\<close>

text \<open>
  A parsed JSON body has type \<^verbatim>\<open>any\<close> in the source, so it is a JSON value here.
  Numbers are kept as integers; an object is the list of its properties.
\<close>

datatype json_value =
    JNull
  | JBool bool
  | JNum int
  | JStr string
  | JArr "json_value list"
  | JObj "(string \<times> json_value) list"

text \<open>
  What a \<^verbatim>\<open>throw\<close> or a rejected promise carries: an \<^verbatim>\<open>Error\<close> with its message, or
  some other value (the \<^verbatim>\<open>instanceof Error\<close> test of the handler tells them apart).
\<close>

datatype thrown = Error string | NonError

text \<open>JavaScript truthiness of a JSON value (the test of \<^verbatim>\<open>if (v)\<close> and \<^verbatim>\<open>v || w\<close>).\<close>

fun truthy :: "json_value \<Rightarrow> bool" where
  "truthy JNull = False"
| "truthy (JBool b) = b"
| "truthy (JNum n) = (n \<noteq> 0)"
| "truthy (JStr s) = (s \<noteq> [])"
| "truthy (JArr xs) = True"
| "truthy (JObj kvs) = True"

text \<open>The message of the TypeError raised by reading a property of \<^verbatim>\<open>null\<close> (V8's wording).\<close>

definition null_property_message :: "string \<Rightarrow> string" where
  "null_property_message k = ''Cannot read properties of null (reading '' @ [CHR 39] @ k @ [CHR 39] @ '')''"

text \<open>
  Property access \<^verbatim>\<open>v.k\<close>: reading a property of \<^verbatim>\<open>null\<close> throws a TypeError; an
  object yields the property or \<^verbatim>\<open>undefined\<close> (\<open>None\<close>); arrays and primitives have none
  of the property names the program reads, so they yield \<^verbatim>\<open>undefined\<close>.
\<close>

fun get_prop :: "json_value \<Rightarrow> string \<Rightarrow> thrown + json_value option" where
  "get_prop JNull k = Inl (Error (null_property_message k))"
| "get_prop (JObj kvs) k = Inr (map_of kvs k)"
| "get_prop v k = Inr None"

text \<open>Optional chaining \<^verbatim>\<open>v?.k\<close> on a value that may be \<^verbatim>\<open>undefined\<close>.\<close>

fun optional_prop :: "json_value option \<Rightarrow> string \<Rightarrow> json_value option" where
  "optional_prop None k = None"
| "optional_prop (Some JNull) k = None"
| "optional_prop (Some (JObj kvs)) k = map_of kvs k"
| "optional_prop (Some v) k = None"

text \<open>\<^verbatim>\<open>v || d\<close> where \<open>v\<close> may be \<^verbatim>\<open>undefined\<close>.\<close>

fun or_else :: "json_value option \<Rightarrow> json_value \<Rightarrow> json_value" where
  "or_else None d = d"
| "or_else (Some v) d = (if truthy v then v else d)"

subsection \<open>Strings\<close>

text \<open>
  Strings are lists of 8-bit characters. \<^verbatim>\<open>String.prototype.trim\<close> removes white space
  and line terminators at both ends; of those, the code units below 256 are
  U+0009 to U+000D, U+0020 and U+00A0.
\<close>

definition is_white_space :: "char \<Rightarrow> bool" where
  "is_white_space c = (let n = of_char c :: nat in (9 \<le> n \<and> n \<le> 13) \<or> n = 32 \<or> n = 160)"

definition trim :: "string \<Rightarrow> string" where
  "trim s = rev (dropWhile is_white_space (rev (dropWhile is_white_space s)))"

text \<open>\<^verbatim>\<open>s.includes(sub)\<close>: \<open>sub\<close> occurs in \<open>s\<close> as a contiguous substring.\<close>

fun is_prefix :: "string \<Rightarrow> string \<Rightarrow> bool" where
  "is_prefix [] s = True"
| "is_prefix (p # ps) [] = False"
| "is_prefix (p # ps) (c # cs) = (p = c \<and> is_prefix ps cs)"

fun str_includes :: "string \<Rightarrow> string \<Rightarrow> bool" where
  "str_includes [] sub = (sub = [])"
| "str_includes (c # cs) sub = (is_prefix sub (c # cs) \<or> str_includes cs sub)"

text \<open>The decimal digits of a number, as a template literal prints \<^verbatim>\<open>response.status\<close>.\<close>

definition digit_char :: "nat \<Rightarrow> char" where
  "digit_char d = ''0123456789'' ! d"

fun show_nat :: "nat \<Rightarrow> string" where
  "show_nat n = (if n < 10 then [digit_char n] else show_nat (n div 10) @ [digit_char (n mod 10)])"

declare show_nat.simps [simp del]

subsection \<open>Messages, requests and responses\<close>

datatype msg_type = User | Bot

text \<open>
  \<^verbatim>\<open>interface Message\<close>. The content is declared a string; the poller stores whatever
  truthy value it finds in the parsed reply, so a content is a JSON value and a string
  content is \<open>JStr\<close>. A timestamp is a reading of the clock in milliseconds.
\<close>

record message =
  mtype :: msg_type
  content :: json_value
  timestamp :: nat

record history_entry =
  role :: string
  entry_content :: json_value

text \<open>The body of the POST request (lines 110 to 117).\<close>

record request =
  req_message :: string
  req_timestamp :: nat
  conversation_history :: "history_entry list"

text \<open>
  A response: its status, its \<^verbatim>\<open>Content-Type\<close> header (\<open>None\<close> when absent), and what
  \<^verbatim>\<open>response.json()\<close> and \<^verbatim>\<open>response.text()\<close> resolve to or reject with.
\<close>

record response =
  status :: nat
  content_type :: "string option"
  body_json :: "thrown + json_value"
  body_text :: "thrown + string"

datatype fetch_result = Rejected thrown | Resolved response

text \<open>
  The two endpoints. The status endpoint is asked with the job identifier; the second
  argument is the number of the attempt within the poll cycle, counted from 0.
\<close>

record env =
  submit_fetch :: "request \<Rightarrow> fetch_result"
  status_fetch :: "json_value \<Rightarrow> nat \<Rightarrow> fetch_result"

text \<open>Everything the cycle does to the outside and to the conversation, in order.\<close>

datatype event =
    Appended message
  | Post request
  | StatusQuery json_value
  | SetTimeout nat

text \<open>
  The component state: the three \<^verbatim>\<open>useState\<close> cells, the clock read by \<^verbatim>\<open>new Date()\<close>
  (time passes only while a timer runs; the time a network call takes is not modelled)
  and the log of events. \<open>uncaught\<close> is \<open>None\<close> while the component is mounted; it holds
  the error that escaped every handler once that has happened.
\<close>

record state =
  messages :: "message list"
  input :: string
  isTyping :: bool
  clock :: nat
  trace :: "event list"
  uncaught :: "thrown option"

definition greeting :: string where
  "greeting = ''Hi! I'' @ [CHR 39] @ ''m MetaJungkok, powered by Jhunpaul. How can I help you today?''"

text \<open>The state at mount (lines 20 to 28), at clock reading \<open>t0\<close>.\<close>

definition initial_state :: "nat \<Rightarrow> state" where
  "initial_state t0 =
     \<lparr>messages = [\<lparr>mtype = Bot, content = JStr greeting, timestamp = t0\<rparr>],
      input = [], isTyping = False, clock = t0, trace = [], uncaught = None\<rparr>"

text \<open>\<^verbatim>\<open>onChange={(e) => setInput(e.target.value)}\<close>\<close>

definition setInput :: "string \<Rightarrow> state \<Rightarrow> state" where
  "setInput v s = s\<lparr>input := v\<rparr>"

text \<open>\<^verbatim>\<open>setMessages(prev => [...prev, m])\<close> for a message \<open>m\<close> whose fields evaluate without an error.\<close>

definition append_message :: "message \<Rightarrow> state \<Rightarrow> state" where
  "append_message m s = s\<lparr>messages := messages s @ [m], trace := trace s @ [Appended m]\<rparr>"

definition log_event :: "event \<Rightarrow> state \<Rightarrow> state" where
  "log_event e s = s\<lparr>trace := trace s @ [e]\<rparr>"

text \<open>
  \<^verbatim>\<open>setMessages(prev => [...prev, m])\<close> where evaluating a field of \<open>m\<close> throws \<open>err\<close>. The
  fields are evaluated when React runs the updater function, which is after the call of
  \<^verbatim>\<open>setMessages\<close> has returned and outside the \<^verbatim>\<open>try\<close> block the call stands in: the error
  is raised while the component renders, nothing catches it (there is no error boundary),
  the messages stay as they were and React removes the component.
\<close>

definition updater_throws :: "thrown \<Rightarrow> state \<Rightarrow> state" where
  "updater_throws err s = s\<lparr>uncaught := Some err\<rparr>"

text \<open>A bot message created now.\<close>

definition bot_message :: "json_value \<Rightarrow> state \<Rightarrow> message" where
  "bot_message c s = \<lparr>mtype = Bot, content = c, timestamp = clock s\<rparr>"

definition ok :: "response \<Rightarrow> bool" where
  "ok r = (200 \<le> status r \<and> status r \<le> 299)"

text \<open>\<^verbatim>\<open>response.headers.get('Content-Type') || ''\<close>\<close>

definition contentType :: "response \<Rightarrow> string" where
  "contentType r = (case content_type r of None \<Rightarrow> [] | Some v \<Rightarrow> v)"

subsection \<open>pollForResponse (lines 45 to 89)\<close>

definition timeout_text :: string where
  "timeout_text = ''I apologize, but I didn'' @ [CHR 39] @ ''t receive a response in time. Please try again.''"

definition not_understood_text :: string where
  "not_understood_text = ''I apologize, but I couldn'' @ [CHR 39] @ ''t understand your request.''"

definition poll_error_text :: string where
  "poll_error_text = ''I apologize, but I encountered an error while processing your request.''"

text \<open>
  Lines 64 to 72, inside the \<^verbatim>\<open>try\<close> block: \<^verbatim>\<open>responseData\<close>, or the rejection of
  \<^verbatim>\<open>response.json()\<close> or \<^verbatim>\<open>response.text()\<close>.
\<close>

definition response_data :: "response \<Rightarrow> thrown + json_value" where
  "response_data r =
     (if str_includes (contentType r) ''application/json'' then body_json r
      else
        (case body_text r of
           Inl e \<Rightarrow> Inl e
         | Inr textResponse \<Rightarrow> Inr (JObj [(''response'', JObj [(''content'', JStr textResponse)])])))"

text \<open>
  Line 76, inside the updater function of lines 74 to 78:
  \<^verbatim>\<open>responseData.response?.content || "I apologize, but I couldn't understand ..."\<close>
\<close>

definition reply_content :: "json_value \<Rightarrow> thrown + json_value" where
  "reply_content responseData =
     (case get_prop responseData ''response'' of
        Inl e \<Rightarrow> Inl e
      | Inr resp \<Rightarrow> Inr (or_else (optional_prop resp ''content'') (JStr not_understood_text)))"

text \<open>The \<^verbatim>\<open>catch\<close> block followed by the \<^verbatim>\<open>finally\<close> block (lines 79 to 88).\<close>

definition poll_catch :: "state \<Rightarrow> state" where
  "poll_catch s = (append_message (bot_message (JStr poll_error_text) s) s)\<lparr>isTyping := False\<rparr>"

text \<open>
  One call of \<^verbatim>\<open>pollForResponse(messageId, retries)\<close> together with the calls its timers
  make. On status 202 the timer is set, the \<^verbatim>\<open>finally\<close> block runs, and the next call
  happens when the timer fires, 1000 ms later. The address asked is the status address
  followed by the job identifier; the log keeps the identifier. The calls of
  \<^verbatim>\<open>console.error\<close> are left out, and so is \<^verbatim>\<open>pollTimeoutRef\<close>: the effect that clears
  the timer runs when \<^verbatim>\<open>messages\<close> changes or the component is removed, which does not
  happen between the first status query of a cycle and its bot message unless a second
  submission starts meanwhile; the model runs one cycle at a time. For a final answer the
  \<^verbatim>\<open>try\<close> block reads the body and calls \<^verbatim>\<open>setMessages\<close>, the \<^verbatim>\<open>finally\<close> block runs, and
  only then is the content of the new message evaluated, by the updater.
\<close>

function pollForResponse :: "env \<Rightarrow> json_value \<Rightarrow> nat \<Rightarrow> state \<Rightarrow> state" where
  "pollForResponse e messageId retries s =
     (if retries > 30 then
        (append_message (bot_message (JStr timeout_text) s) s)\<lparr>isTyping := False\<rparr>
      else
        (case status_fetch e messageId retries of
           Rejected err \<Rightarrow> poll_catch (log_event (StatusQuery messageId) s)
         | Resolved r \<Rightarrow>
             if status r = 202 then
               pollForResponse e messageId (retries + 1)
                 ((log_event (SetTimeout 1000) (log_event (StatusQuery messageId) s))
                    \<lparr>isTyping := False, clock := clock s + 1000\<rparr>)
             else
               (case response_data r of
                  Inl err \<Rightarrow> poll_catch (log_event (StatusQuery messageId) s)
                | Inr responseData \<Rightarrow>
                    (case reply_content responseData of
                       Inl err \<Rightarrow>
                         updater_throws err ((log_event (StatusQuery messageId) s)\<lparr>isTyping := False\<rparr>)
                     | Inr c \<Rightarrow>
                         (append_message (bot_message c s) (log_event (StatusQuery messageId) s))
                           \<lparr>isTyping := False\<rparr>))))"
  by pat_completeness auto
termination
  by (relation "measure (\<lambda>(e, messageId, retries, s). 31 - retries)") auto

declare pollForResponse.simps [simp del]

subsection \<open>handleSubmit (lines 91 to 178)\<close>

definition no_message_id_text :: string where
  "no_message_id_text = ''No messageId received in the response''"

definition unexpected_text :: string where
  "unexpected_text = ''An unexpected error occurred. Please try again later.''"

text \<open>The \<^verbatim>\<open>switch\<close> on the status (lines 147 to 165).\<close>

definition status_reason :: "nat \<Rightarrow> string" where
  "status_reason st =
     (if st = 400 then ''Invalid request format''
      else if st = 401 then ''Unauthorized access''
      else if st = 403 then ''Access forbidden''
      else if st = 429 then ''Too many requests, please try again later''
      else if st = 500 then ''Internal server error''
      else ''Unexpected error occurred'')"

definition server_error_message :: "nat \<Rightarrow> string" where
  "server_error_message st = ''Server error (Status '' @ show_nat st @ ''): '' @ status_reason st"

text \<open>\<^verbatim>\<open>role: msg.type === 'user' ? 'user' : 'assistant', content: msg.content\<close>\<close>

definition to_history_entry :: "message \<Rightarrow> history_entry" where
  "to_history_entry msg =
     \<lparr>role = (if mtype msg = User then ''user'' else ''assistant''), entry_content = content msg\<rparr>"

text \<open>
  The request body built from the \<^verbatim>\<open>input\<close> and \<^verbatim>\<open>messages\<close> of the render the handler
  belongs to: the \<^verbatim>\<open>setMessages\<close> call before it does not change that \<^verbatim>\<open>messages\<close>.
\<close>

definition build_request :: "state \<Rightarrow> request" where
  "build_request s =
     \<lparr>req_message = input s, req_timestamp = clock s,
      conversation_history = map to_history_entry (messages s)\<rparr>"

text \<open>
  The \<^verbatim>\<open>try\<close> block (lines 104 to 168), run in the state \<open>s\<close> reached after
  \<^verbatim>\<open>setIsTyping(true)\<close>: the state it ends in, or the value it throws. The block changes
  nothing before a throw except through the request it sends.
\<close>

definition submit_try :: "env \<Rightarrow> request \<Rightarrow> state \<Rightarrow> thrown + state" where
  "submit_try e req s =
     (case submit_fetch e req of
        Rejected err \<Rightarrow> Inl err
      | Resolved r \<Rightarrow>
          if ok r then
            (if str_includes (contentType r) ''application/json'' then
               (case body_json r of
                  Inl err \<Rightarrow> Inl err
                | Inr data \<Rightarrow>
                    (case get_prop data ''messageId'' of
                       Inl err \<Rightarrow> Inl err
                     | Inr None \<Rightarrow> Inl (Error no_message_id_text)
                     | Inr (Some messageId) \<Rightarrow>
                         if truthy messageId then Inr (pollForResponse e messageId 0 s)
                         else Inl (Error no_message_id_text)))
             else
               (case body_text r of
                  Inl err \<Rightarrow> Inl err
                | Inr textResponse \<Rightarrow>
                    Inr ((append_message (bot_message (JStr textResponse) s) s)\<lparr>isTyping := False\<rparr>)))
          else Inl (Error (server_error_message (status r))))"

text \<open>The \<^verbatim>\<open>catch\<close> block (lines 169 to 177).\<close>

definition submit_catch :: "thrown \<Rightarrow> state \<Rightarrow> state" where
  "submit_catch err s =
     (append_message
        (bot_message (case err of Error m \<Rightarrow> JStr m | NonError \<Rightarrow> JStr unexpected_text) s) s)
       \<lparr>isTyping := False\<rparr>"

text \<open>The \<^verbatim>\<open>userMessage\<close> of lines 95 to 99.\<close>

definition user_message :: "state \<Rightarrow> message" where
  "user_message s = \<lparr>mtype = User, content = JStr (input s), timestamp = clock s\<rparr>"

definition handleSubmit :: "env \<Rightarrow> state \<Rightarrow> state" where
  "handleSubmit e s =
     (if trim (input s) = [] then s
      else
        let userMessage = user_message s;
            req = build_request s;
            s1 = log_event (Post req) ((append_message userMessage s)\<lparr>input := [], isTyping := True\<rparr>)
        in (case submit_try e req s1 of
              Inl err \<Rightarrow> submit_catch err s1
            | Inr s2 \<Rightarrow> s2))"

subsection \<open>Reading the log\<close>

fun is_status_query :: "event \<Rightarrow> bool" where
  "is_status_query (StatusQuery j) = True"
| "is_status_query ev = False"

fun is_poll_event :: "event \<Rightarrow> bool" where
  "is_poll_event (StatusQuery j) = True"
| "is_poll_event (SetTimeout d) = True"
| "is_poll_event ev = False"

text \<open>The number of status queries in a log.\<close>

definition status_queries :: "event list \<Rightarrow> nat" where
  "status_queries evs = length (filter is_status_query evs)"

text \<open>
  The state after a cycle that sent the user's message and answered it with one bot
  message of content \<open>c\<close> without asking the status endpoint: the two messages are
  appended in this order, the input is cleared, the typing indicator is off.
\<close>

definition answered_directly :: "json_value \<Rightarrow> state \<Rightarrow> state" where
  "answered_directly c s =
     s\<lparr>messages := messages s @ [user_message s, \<lparr>mtype = Bot, content = c, timestamp = clock s\<rparr>],
       input := [],
       isTyping := False,
       trace := trace s @
         [Appended (user_message s), Post (build_request s),
          Appended \<lparr>mtype = Bot, content = c, timestamp = clock s\<rparr>]\<rparr>"

text \<open>
  The states the component can be in: mounted at some time, then any sequence of
  typing, waiting and submit cycles, each cycle against any behaviour of the endpoints.
  A removed component takes no further events; the rules do not ask for \<open>uncaught\<close> to be
  \<open>None\<close>, so the set holds every state the component can be in, and more.
\<close>

inductive reachable :: "state \<Rightarrow> bool" where
  mounted: "reachable (initial_state t0)"
| typed: "reachable s \<Longrightarrow> reachable (setInput v s)"
| waited: "reachable s \<Longrightarrow> reachable (s\<lparr>clock := clock s + d\<rparr>)"
| submitted: "reachable s \<Longrightarrow> reachable (handleSubmit e s)"

text \<open>
  \<open>has_prop v k\<close>: the value \<open>v\<close> is an object with a property \<open>k\<close>. The JSON value
  \<^verbatim>\<open>null\<close>, arrays and primitives have no property.
\<close>

fun has_prop :: "json_value \<Rightarrow> string \<Rightarrow> bool" where
  "has_prop (JObj kvs) k = (map_of kvs k \<noteq> None)"
| "has_prop v k = False"

text \<open>A parsed status reply carries a reply content: it has \<^verbatim>\<open>response.content\<close>.\<close>

fun has_reply_content :: "json_value \<Rightarrow> bool" where
  "has_reply_content (JObj kvs) =
     (case map_of kvs ''response'' of None \<Rightarrow> False | Some resp \<Rightarrow> has_prop resp ''content'')"
| "has_reply_content v = False"

text \<open>Reading a decimal numeral back, to state that \<open>show_nat\<close> loses nothing.\<close>

definition digit_value :: "char \<Rightarrow> nat" where
  "digit_value c = of_char c - 48"

definition read_nat :: "string \<Rightarrow> nat" where
  "read_nat cs = foldl (\<lambda>a c. 10 * a + digit_value c) 0 cs"

subsection \<open>Example endpoints and states\<close>

text \<open>Endpoints that answer every request with the same two responses.\<close>

definition fixed_env :: "response \<Rightarrow> response \<Rightarrow> env" where
  "fixed_env sub st = \<lparr>submit_fetch = (\<lambda>req. Resolved sub), status_fetch = (\<lambda>messageId k. Resolved st)\<rparr>"

text \<open>An endpoint that cannot be reached.\<close>

definition offline_env :: env where
  "offline_env =
     \<lparr>submit_fetch = (\<lambda>req. Rejected (Error ''Failed to fetch'')),
      status_fetch = (\<lambda>messageId k. Rejected (Error ''Failed to fetch''))\<rparr>"

definition json_response :: "nat \<Rightarrow> json_value \<Rightarrow> response" where
  "json_response st v =
     \<lparr>status = st, content_type = Some ''application/json; charset=utf-8'',
      body_json = Inr v, body_text = Inr []\<rparr>"

definition text_response :: "nat \<Rightarrow> string \<Rightarrow> response" where
  "text_response st t =
     \<lparr>status = st, content_type = Some ''text/plain'',
      body_json = Inl (Error ''Unexpected token''), body_text = Inr t\<rparr>"

definition job_response :: response where
  "job_response = json_response 200 (JObj [(''messageId'', JStr ''job-1'')])"

definition pending_response :: response where
  "pending_response = text_response 202 ''Accepted''"

text \<open>The freshly mounted component after the user typed \<^verbatim>\<open>hello\<close>.\<close>

definition example_state :: state where
  "example_state = setInput ''hello'' (initial_state 0)"

section \<open>Properties\<close>

subsection \<open>Strings\<close>

lemma trim_empty_iff: "trim s = [] \<longleftrightarrow> (\<forall>c\<in>set s. is_white_space c)"
proof -
  let ?d = "dropWhile is_white_space s"
  have "(\<forall>x\<in>set ?d. is_white_space x) \<longleftrightarrow> ?d = []"
  proof
    assume all: "\<forall>x\<in>set ?d. is_white_space x"
    show "?d = []"
    proof (rule ccontr)
      assume ne: "?d \<noteq> []"
      then have "\<not> is_white_space (hd ?d)" by (rule hd_dropWhile)
      moreover have "hd ?d \<in> set ?d" using ne by simp
      ultimately show False using all by blast
    qed
  next
    assume e: "?d = []"
    show "\<forall>x\<in>set ?d. is_white_space x" unfolding e by simp
  qed
  then show ?thesis
    by (simp add: trim_def dropWhile_eq_Nil_conv)
qed

subsection \<open>The shape of a poll cycle and of a submit cycle\<close>

text \<open>
  Whatever the status endpoint does, a poll cycle ends, and before its end it does nothing
  but status queries and timers. It ends in one of two ways: with one bot message,
  appended as its last action, or with the error of an updater, and then without a message.
\<close>

lemma poll_shape:
  "(\<exists>b evs. mtype b = Bot \<and>
      messages (pollForResponse e mid k s) = messages s @ [b] \<and>
      trace (pollForResponse e mid k s) = trace s @ evs @ [Appended b] \<and>
      list_all is_poll_event evs \<and>
      isTyping (pollForResponse e mid k s) = False \<and>
      input (pollForResponse e mid k s) = input s \<and>
      uncaught (pollForResponse e mid k s) = uncaught s)
   \<or> (\<exists>err evs.
      messages (pollForResponse e mid k s) = messages s \<and>
      trace (pollForResponse e mid k s) = trace s @ evs \<and>
      list_all is_poll_event evs \<and>
      isTyping (pollForResponse e mid k s) = False \<and>
      input (pollForResponse e mid k s) = input s \<and>
      uncaught (pollForResponse e mid k s) = Some err)"
  (is "?ended e mid k s \<or> ?escaped e mid k s")
proof (induction e mid k s rule: pollForResponse.induct)
  case (1 e mid k s)
  let ?q = "log_event (StatusQuery mid) s"
  have caught: "pollForResponse e mid k s = poll_catch ?q \<Longrightarrow> ?ended e mid k s"
    by (rule exI [of _ "bot_message (JStr poll_error_text) ?q"], rule exI [of _ "[StatusQuery mid]"])
       (simp add: poll_catch_def append_message_def log_event_def bot_message_def)
  show ?case
  proof (cases "k > 30")
    case True
    have "?ended e mid k s"
      by (rule exI [of _ "bot_message (JStr timeout_text) s"], rule exI [of _ "[]"])
         (simp add: pollForResponse.simps [of e mid k s] True append_message_def bot_message_def)
    then show ?thesis ..
  next
    case False
    show ?thesis
    proof (cases "status_fetch e mid k")
      case (Rejected err)
      with False have "pollForResponse e mid k s = poll_catch ?q"
        by (simp add: pollForResponse.simps [of e mid k s])
      then show ?thesis using caught by blast
    next
      case (Resolved r)
      show ?thesis
      proof (cases "status r = 202")
        case True
        let ?s' = "(log_event (SetTimeout 1000) ?q)\<lparr>isTyping := False, clock := clock s + 1000\<rparr>"
        have step: "pollForResponse e mid k s = pollForResponse e mid (k + 1) ?s'"
          using False Resolved True by (simp add: pollForResponse.simps [of e mid k s])
        from "1.IH" [OF False Resolved True] consider
          (ended) b evs where
            "mtype b = Bot"
            "messages (pollForResponse e mid (k + 1) ?s') = messages ?s' @ [b]"
            "trace (pollForResponse e mid (k + 1) ?s') = trace ?s' @ evs @ [Appended b]"
            "list_all is_poll_event evs"
            "isTyping (pollForResponse e mid (k + 1) ?s') = False"
            "input (pollForResponse e mid (k + 1) ?s') = input ?s'"
            "uncaught (pollForResponse e mid (k + 1) ?s') = uncaught ?s'"
        | (escaped) err evs where
            "messages (pollForResponse e mid (k + 1) ?s') = messages ?s'"
            "trace (pollForResponse e mid (k + 1) ?s') = trace ?s' @ evs"
            "list_all is_poll_event evs"
            "isTyping (pollForResponse e mid (k + 1) ?s') = False"
            "input (pollForResponse e mid (k + 1) ?s') = input ?s'"
            "uncaught (pollForResponse e mid (k + 1) ?s') = Some err"
          by blast
        then show ?thesis
        proof cases
          case ended
          then have "?ended e mid k s"
            unfolding step
            by (intro exI [of _ b] exI [of _ "[StatusQuery mid, SetTimeout 1000] @ evs"])
               (simp add: log_event_def)
          then show ?thesis ..
        next
          case escaped
          then have "?escaped e mid k s"
            unfolding step
            by (intro exI [of _ err] exI [of _ "[StatusQuery mid, SetTimeout 1000] @ evs"])
               (simp add: log_event_def)
          then show ?thesis ..
        qed
      next
        case final: False
        show ?thesis
        proof (cases "response_data r")
          case (Inl err)
          with False Resolved final have "pollForResponse e mid k s = poll_catch ?q"
            by (simp add: pollForResponse.simps [of e mid k s])
          then show ?thesis using caught by blast
        next
          case (Inr responseData)
          show ?thesis
          proof (cases "reply_content responseData")
            case thrown: (Inl err)
            have fin: "pollForResponse e mid k s = updater_throws err (?q\<lparr>isTyping := False\<rparr>)"
              using False Resolved final Inr thrown
              by (simp add: pollForResponse.simps [of e mid k s])
            have "?escaped e mid k s"
              unfolding fin
              by (rule exI [of _ err], rule exI [of _ "[StatusQuery mid]"])
                 (simp add: updater_throws_def log_event_def)
            then show ?thesis ..
          next
            case content: (Inr c)
            have fin: "pollForResponse e mid k s =
                (append_message (bot_message c s) ?q)\<lparr>isTyping := False\<rparr>"
              using False Resolved final Inr content
              by (simp add: pollForResponse.simps [of e mid k s])
            have "?ended e mid k s"
              unfolding fin
              by (rule exI [of _ "bot_message c s"], rule exI [of _ "[StatusQuery mid]"])
                 (simp add: append_message_def log_event_def bot_message_def)
            then show ?thesis ..
          qed
        qed
      qed
    qed
  qed
qed

text \<open>The state in which the \<^verbatim>\<open>try\<close> block of \<^verbatim>\<open>handleSubmit\<close> starts.\<close>

lemma handleSubmit_unfold:
  assumes "trim (input s) \<noteq> []"
  shows "handleSubmit e s =
      (case submit_try e (build_request s)
              (log_event (Post (build_request s))
                 ((append_message (user_message s) s)\<lparr>input := [], isTyping := True\<rparr>)) of
         Inl err \<Rightarrow>
           submit_catch err
             (log_event (Post (build_request s))
                ((append_message (user_message s) s)\<lparr>input := [], isTyping := True\<rparr>))
       | Inr s2 \<Rightarrow> s2)"
  using assms by (simp add: handleSubmit_def Let_def)

lemma cycle_shape:
  assumes "trim (input s) \<noteq> []"
  shows "(\<exists>b evs. mtype b = Bot \<and>
      messages (handleSubmit e s) = messages s @ [user_message s, b] \<and>
      trace (handleSubmit e s) =
        trace s @ [Appended (user_message s), Post (build_request s)] @ evs @ [Appended b] \<and>
      list_all is_poll_event evs \<and>
      isTyping (handleSubmit e s) = False \<and>
      input (handleSubmit e s) = [] \<and>
      uncaught (handleSubmit e s) = uncaught s)
   \<or> (\<exists>err evs.
      messages (handleSubmit e s) = messages s @ [user_message s] \<and>
      trace (handleSubmit e s) =
        trace s @ [Appended (user_message s), Post (build_request s)] @ evs \<and>
      list_all is_poll_event evs \<and>
      isTyping (handleSubmit e s) = False \<and>
      input (handleSubmit e s) = [] \<and>
      uncaught (handleSubmit e s) = Some err)"
  (is "?ended \<or> ?escaped")
proof -
  let ?s1 = "log_event (Post (build_request s))
               ((append_message (user_message s) s)\<lparr>input := [], isTyping := True\<rparr>)"
  note hs = handleSubmit_unfold [OF assms, of e]
  show ?thesis
  proof (cases "submit_try e (build_request s) ?s1")
    case (Inl err)
    have ?ended
      unfolding hs Inl
      by (rule exI [of _ "bot_message (case err of Error m \<Rightarrow> JStr m | NonError \<Rightarrow> JStr unexpected_text) ?s1"],
          rule exI [of _ "[]"])
         (simp add: submit_catch_def append_message_def log_event_def bot_message_def)
    then show ?thesis ..
  next
    case (Inr s2)
    then consider
      (polled) mid where "s2 = pollForResponse e mid 0 ?s1"
    | (direct) t where "s2 = (append_message (bot_message (JStr t) ?s1) ?s1)\<lparr>isTyping := False\<rparr>"
      by (auto simp: submit_try_def split: fetch_result.splits if_splits sum.splits option.splits)
    then show ?thesis
    proof cases
      case polled
      from poll_shape [of e mid 0 ?s1] consider
        (ended) b evs where
          "mtype b = Bot"
          "messages (pollForResponse e mid 0 ?s1) = messages ?s1 @ [b]"
          "trace (pollForResponse e mid 0 ?s1) = trace ?s1 @ evs @ [Appended b]"
          "list_all is_poll_event evs"
          "isTyping (pollForResponse e mid 0 ?s1) = False"
          "input (pollForResponse e mid 0 ?s1) = input ?s1"
          "uncaught (pollForResponse e mid 0 ?s1) = uncaught ?s1"
      | (escaped) err evs where
          "messages (pollForResponse e mid 0 ?s1) = messages ?s1"
          "trace (pollForResponse e mid 0 ?s1) = trace ?s1 @ evs"
          "list_all is_poll_event evs"
          "isTyping (pollForResponse e mid 0 ?s1) = False"
          "input (pollForResponse e mid 0 ?s1) = input ?s1"
          "uncaught (pollForResponse e mid 0 ?s1) = Some err"
        by blast
      then show ?thesis
      proof cases
        case ended
        then have ?ended
          unfolding hs Inr polled
          by (intro exI [of _ b] exI [of _ evs]) (simp add: append_message_def log_event_def)
        then show ?thesis ..
      next
        case escaped
        then have ?escaped
          unfolding hs Inr polled
          by (intro exI [of _ err] exI [of _ evs]) (simp add: append_message_def log_event_def)
        then show ?thesis ..
      qed
    next
      case direct
      have ?ended
        unfolding hs Inr direct
        by (rule exI [of _ "bot_message (JStr t) ?s1"], rule exI [of _ "[]"])
           (simp add: append_message_def log_event_def bot_message_def)
      then show ?thesis ..
    qed
  qed
qed

text \<open>A submit cycle that ends in the \<^verbatim>\<open>catch\<close> block with an \<^verbatim>\<open>Error\<close>.\<close>

lemma handleSubmit_caught:
  assumes "trim (input s) \<noteq> []"
    and "submit_try e (build_request s)
           (log_event (Post (build_request s))
              ((append_message (user_message s) s)\<lparr>input := [], isTyping := True\<rparr>)) = Inl (Error m)"
  shows "handleSubmit e s = answered_directly (JStr m) s"
  unfolding handleSubmit_unfold [OF assms(1)] assms(2)
  by (simp add: submit_catch_def answered_directly_def append_message_def log_event_def
      bot_message_def)

lemma status_queries_append: "status_queries (xs @ ys) = status_queries xs + status_queries ys"
  by (simp add: status_queries_def)

lemma status_queries_answered_directly:
  "status_queries (trace (answered_directly c s)) = status_queries (trace s)"
  by (simp add: answered_directly_def status_queries_def)

lemma status_queries_rounds:
  "status_queries (concat (replicate n [StatusQuery mid, SetTimeout d])) = n"
  by (induction n) (simp_all add: status_queries_def)

text \<open>While the status endpoint answers 202, the poller goes on to the ceiling.\<close>

lemma poll_pending:
  assumes pend: "\<forall>k. \<exists>r. status_fetch e mid k = Resolved r \<and> status r = 202"
  shows "retries \<le> 31 \<Longrightarrow>
    pollForResponse e mid retries s =
      s\<lparr>messages := messages s @
            [\<lparr>mtype = Bot, content = JStr timeout_text, timestamp = clock s + 1000 * (31 - retries)\<rparr>],
        isTyping := False,
        clock := clock s + 1000 * (31 - retries),
        trace := trace s @ concat (replicate (31 - retries) [StatusQuery mid, SetTimeout 1000]) @
            [Appended \<lparr>mtype = Bot, content = JStr timeout_text,
                       timestamp = clock s + 1000 * (31 - retries)\<rparr>]\<rparr>"
proof (induction "31 - retries" arbitrary: retries s)
  case 0
  then have "retries = 31" by simp
  then show ?case
    by (simp add: pollForResponse.simps [of e mid 31 s] append_message_def bot_message_def)
next
  case (Suc n)
  then have le: "retries \<le> 30" and n: "n = 31 - (retries + 1)" and d: "31 - retries = Suc n"
    by simp_all
  from pend obtain r where r: "status_fetch e mid retries = Resolved r" "status r = 202"
    by blast
  let ?s' = "(log_event (SetTimeout 1000) (log_event (StatusQuery mid) s))
               \<lparr>isTyping := False, clock := clock s + 1000\<rparr>"
  have step: "pollForResponse e mid retries s = pollForResponse e mid (retries + 1) ?s'"
    using le r by (subst pollForResponse.simps) simp
  have "retries + 1 \<le> 31" using le by simp
  from Suc.hyps(1) [OF n this, of ?s'] show ?case
    unfolding step d using n [symmetric]
    by (simp add: log_event_def)
qed

subsection \<open>Decimal numerals\<close>

lemma digit_value_digit_char: "d < 10 \<Longrightarrow> digit_value (digit_char d) = d"
proof -
  assume "d < 10"
  then have "d = 0 \<or> d = 1 \<or> d = 2 \<or> d = 3 \<or> d = 4 \<or> d = 5 \<or> d = 6 \<or> d = 7 \<or> d = 8 \<or> d = 9"
    by arith
  then show ?thesis
    by (auto simp: digit_char_def digit_value_def)
qed

lemma read_nat_snoc: "read_nat (cs @ [c]) = 10 * read_nat cs + digit_value c"
  by (simp add: read_nat_def)

text \<open>The status code can be read back from its decimal rendering.\<close>

lemma read_show_nat: "read_nat (show_nat n) = n"
proof (induction n rule: show_nat.induct)
  case (1 n)
  show ?case
  proof (cases "n < 10")
    case True
    then show ?thesis
      by (simp add: show_nat.simps [of n] read_nat_def digit_value_digit_char)
  next
    case False
    with "1.IH" have "read_nat (show_nat (n div 10)) = n div 10" by simp
    with False show ?thesis
      by (simp add: show_nat.simps [of n] read_nat_snoc digit_value_digit_char)
  qed
qed

subsection \<open>The conversation only grows\<close>

lemma pollForResponse_messages_prefix:
  "prefix (messages s) (messages (pollForResponse e mid k s))"
  using poll_shape [of e mid k s] by auto

lemma handleSubmit_messages_prefix: "prefix (messages s) (messages (handleSubmit e s))"
proof (cases "trim (input s) = []")
  case True
  then show ?thesis by (simp add: handleSubmit_def)
next
  case False
  from cycle_shape [OF False, of e] show ?thesis by auto
qed

lemma reachable_messages_nonempty: "reachable s \<Longrightarrow> messages s \<noteq> []"
proof (induction rule: reachable.induct)
  case (mounted t0)
  show ?case by (simp add: initial_state_def)
next
  case (typed s v)
  then show ?case by (simp add: setInput_def)
next
  case (waited s d)
  then show ?case by simp
next
  case (submitted s e)
  with handleSubmit_messages_prefix [of s e] show ?case by auto
qed

subsection \<open>Absent properties\<close>

lemma get_prop_absent: "v \<noteq> JNull \<Longrightarrow> \<not> has_prop v k \<Longrightarrow> get_prop v k = Inr None"
  by (cases v) simp_all

lemma optional_prop_absent: "\<not> has_prop v k \<Longrightarrow> optional_prop (Some v) k = None"
  by (cases v) simp_all

lemma reply_content_absent:
  assumes "data \<noteq> JNull" and "\<not> has_reply_content data"
  shows "reply_content data = Inr (JStr not_understood_text)"
proof (cases data)
  case (JObj kvs)
  show ?thesis
  proof (cases "map_of kvs ''response''")
    case None
    with JObj show ?thesis by (simp add: reply_content_def)
  next
    case (Some resp)
    with JObj assms(2) have "\<not> has_prop resp ''content''" by simp
    then have "optional_prop (Some resp) ''content'' = None" by (rule optional_prop_absent)
    with JObj Some show ?thesis by (simp add: reply_content_def)
  qed
qed (use assms in \<open>simp_all add: reply_content_def\<close>)

text \<open>
  A final status answer with a JSON body that is not \<^verbatim>\<open>null\<close> and has no
  \<^verbatim>\<open>response.content\<close> ends the poll cycle with the placeholder as the one bot message.
\<close>

lemma placeholder_for_missing_content:
  assumes "retries \<le> 30"
    and "status_fetch e messageId retries = Resolved r"
    and "status r \<noteq> 202"
    and "str_includes (contentType r) ''application/json''"
    and "body_json r = Inr data"
    and "data \<noteq> JNull"
    and "\<not> has_reply_content data"
  shows "pollForResponse e messageId retries s =
      s\<lparr>messages := messages s @
            [\<lparr>mtype = Bot, content = JStr not_understood_text, timestamp = clock s\<rparr>],
        isTyping := False,
        trace := trace s @
            [StatusQuery messageId,
             Appended \<lparr>mtype = Bot, content = JStr not_understood_text, timestamp = clock s\<rparr>]\<rparr>"
proof -
  have "response_data r = Inr data"
    using assms(4,5) by (simp add: response_data_def)
  with assms(1-3) reply_content_absent [OF assms(6,7)] show ?thesis
    by (simp add: pollForResponse.simps [of e messageId retries s] append_message_def
        log_event_def bot_message_def)
qed

section \<open>The claims\<close>

subsection \<open>C1: a job that stays in progress\<close>

text \<open>
  C1. If every status query of a job is answered with status 202, the poll cycle started
  by \<^verbatim>\<open>pollForResponse(messageId)\<close> makes exactly 31 status queries (the first and 30
  retries), each followed by a timer of 1000 ms, and then appends the one time-out
  message; the append is the last event of the cycle, so no query follows it.
\<close>

theorem poll_always_pending_times_out:
  assumes "\<forall>k. \<exists>r. status_fetch e mid k = Resolved r \<and> status r = 202"
  shows "pollForResponse e mid 0 s =
      s\<lparr>messages := messages s @
            [\<lparr>mtype = Bot, content = JStr timeout_text, timestamp = clock s + 31000\<rparr>],
        isTyping := False,
        clock := clock s + 31000,
        trace := trace s @ concat (replicate 31 [StatusQuery mid, SetTimeout 1000]) @
            [Appended \<lparr>mtype = Bot, content = JStr timeout_text, timestamp = clock s + 31000\<rparr>]\<rparr>
    \<and> status_queries (trace (pollForResponse e mid 0 s)) = status_queries (trace s) + 31"
proof -
  have eq: "pollForResponse e mid 0 s =
      s\<lparr>messages := messages s @
            [\<lparr>mtype = Bot, content = JStr timeout_text, timestamp = clock s + 31000\<rparr>],
        isTyping := False,
        clock := clock s + 31000,
        trace := trace s @ concat (replicate 31 [StatusQuery mid, SetTimeout 1000]) @
            [Appended \<lparr>mtype = Bot, content = JStr timeout_text, timestamp = clock s + 31000\<rparr>]\<rparr>"
    using poll_pending [OF assms, of 0 s] by simp
  have "status_queries (trace (pollForResponse e mid 0 s)) = status_queries (trace s) + 31"
    unfolding eq
    by (simp add: status_queries_append status_queries_rounds [of 31 mid 1000])
       (simp add: status_queries_def)
  with eq show ?thesis by simp
qed

theorem poll_always_pending_times_out_witness:
  "status_queries (trace (pollForResponse (fixed_env job_response pending_response) (JStr ''job-1'') 0
      example_state)) = 31
   \<and> map content (messages (pollForResponse (fixed_env job_response pending_response) (JStr ''job-1'') 0
      example_state)) = [JStr greeting, JStr timeout_text]"
proof -
  let ?e = "fixed_env job_response pending_response"
  have pend: "\<forall>k. \<exists>r. status_fetch ?e (JStr ''job-1'') k = Resolved r \<and> status r = 202"
    by (simp add: fixed_env_def pending_response_def text_response_def)
  note run = poll_always_pending_times_out [OF pend, of example_state]
  have none: "status_queries (trace example_state) = 0"
    by (simp add: example_state_def initial_state_def setInput_def status_queries_def)
  have msgs: "messages example_state = [\<lparr>mtype = Bot, content = JStr greeting, timestamp = 0\<rparr>]"
    by (simp add: example_state_def initial_state_def setInput_def)
  from run [THEN conjunct2] none have "status_queries (trace (pollForResponse ?e (JStr ''job-1'') 0 example_state)) = 31"
    by simp
  moreover from run [THEN conjunct1] have "messages (pollForResponse ?e (JStr ''job-1'') 0 example_state) =
      messages example_state @
        [\<lparr>mtype = Bot, content = JStr timeout_text, timestamp = clock example_state + 31000\<rparr>]"
    by simp
  ultimately show ?thesis
    by (simp add: msgs)
qed

subsection \<open>C9: blank input\<close>

text \<open>
  C9. Submitting an input that is empty or consists of white space only changes nothing:
  the state after \<^verbatim>\<open>handleSubmit\<close> is the state before it, so no message is appended
  and the log gains no request, no status query and no timer.
\<close>

theorem blank_input_is_ignored:
  assumes "\<forall>c\<in>set (input s). is_white_space c"
  shows "handleSubmit e s = s"
  using assms by (simp add: handleSubmit_def trim_empty_iff)

theorem blank_input_is_ignored_witness:
  "is_white_space CHR '' '' \<and>
   handleSubmit offline_env (setInput ''   '' (initial_state 0)) = setInput ''   '' (initial_state 0)"
  using blank_input_is_ignored [of "setInput ''   '' (initial_state 0)" offline_env]
  by (simp add: setInput_def initial_state_def is_white_space_def)

subsection \<open>C3: a plain-text answer\<close>

text \<open>
  C3. If the submission is answered with a 2xx status and a content type that does not
  contain \<^verbatim>\<open>application/json\<close>, the whole body is appended as one bot message after the
  user's message, and no status query is made.
\<close>

theorem plain_text_reply_is_immediate:
  assumes "trim (input s) \<noteq> []"
    and "submit_fetch e (build_request s) = Resolved r"
    and "ok r"
    and "\<not> str_includes (contentType r) ''application/json''"
    and "body_text r = Inr t"
  shows "handleSubmit e s = answered_directly (JStr t) s
    \<and> status_queries (trace (handleSubmit e s)) = status_queries (trace s)"
proof -
  have "handleSubmit e s = answered_directly (JStr t) s"
    unfolding handleSubmit_unfold [OF assms(1)]
    using assms(2-5)
    by (simp add: submit_try_def answered_directly_def append_message_def log_event_def
        bot_message_def)
  then show ?thesis
    by (simp add: status_queries_answered_directly)
qed

theorem plain_text_reply_is_immediate_witness:
  "handleSubmit (fixed_env (text_response 200 ''Hello there'') pending_response) example_state =
     answered_directly (JStr ''Hello there'') example_state
   \<and> map content (messages (handleSubmit (fixed_env (text_response 200 ''Hello there'') pending_response)
        example_state)) = [JStr greeting, JStr ''hello'', JStr ''Hello there'']"
proof -
  have "handleSubmit (fixed_env (text_response 200 ''Hello there'') pending_response) example_state =
     answered_directly (JStr ''Hello there'') example_state"
    using plain_text_reply_is_immediate [of example_state
        "fixed_env (text_response 200 ''Hello there'') pending_response"
        "text_response 200 ''Hello there''" "''Hello there''"]
    by (simp add: example_state_def setInput_def initial_state_def fixed_env_def text_response_def
        ok_def contentType_def trim_def is_white_space_def)
  then show ?thesis
    by (simp add: answered_directly_def example_state_def setInput_def initial_state_def
        user_message_def)
qed

subsection \<open>C4: a submission answered with an error status\<close>

text \<open>
  C4. For every status outside 200 to 299 the \<^verbatim>\<open>try\<close> block throws an \<^verbatim>\<open>Error\<close> whose
  message is \<^verbatim>\<open>Server error (Status N): \<close> followed by the reason for \<open>N\<close>: invalid request
  format for 400, unauthorized for 401, forbidden for 403, too many requests for 429,
  internal server error for 500, unexpected error for any other status. The message holds
  the status code (it can be read back from its digits) and the reason; it is appended as
  the one bot message of the cycle, and no status query is made.
\<close>

theorem error_status_is_reported:
  assumes "trim (input s) \<noteq> []"
    and "submit_fetch e (build_request s) = Resolved r"
    and "\<not> ok r"
  shows "(\<forall>s1. submit_try e (build_request s) s1 =
        Inl (Error (''Server error (Status '' @ show_nat (status r) @ ''): '' @ status_reason (status r))))
    \<and> handleSubmit e s =
        answered_directly
          (JStr (''Server error (Status '' @ show_nat (status r) @ ''): '' @ status_reason (status r))) s
    \<and> status_queries (trace (handleSubmit e s)) = status_queries (trace s)
    \<and> read_nat (show_nat (status r)) = status r
    \<and> status_reason 400 = ''Invalid request format''
    \<and> status_reason 401 = ''Unauthorized access''
    \<and> status_reason 403 = ''Access forbidden''
    \<and> status_reason 429 = ''Too many requests, please try again later''
    \<and> status_reason 500 = ''Internal server error''
    \<and> (status r \<notin> {400, 401, 403, 429, 500} \<longrightarrow>
         status_reason (status r) = ''Unexpected error occurred'')"
proof -
  let ?m = "''Server error (Status '' @ show_nat (status r) @ ''): '' @ status_reason (status r)"
  have thrown: "submit_try e (build_request s) s1 = Inl (Error ?m)" for s1
    using assms(2,3) by (simp add: submit_try_def server_error_message_def)
  have "handleSubmit e s = answered_directly (JStr ?m) s"
    by (rule handleSubmit_caught [OF assms(1) thrown])
  moreover from this have "status_queries (trace (handleSubmit e s)) = status_queries (trace s)"
    by (simp add: status_queries_answered_directly)
  moreover have "status_reason 400 = ''Invalid request format''"
    "status_reason 401 = ''Unauthorized access''"
    "status_reason 403 = ''Access forbidden''"
    "status_reason 429 = ''Too many requests, please try again later''"
    "status_reason 500 = ''Internal server error''"
    "status r \<notin> {400, 401, 403, 429, 500} \<longrightarrow>
         status_reason (status r) = ''Unexpected error occurred''"
    by (simp_all add: status_reason_def)
  ultimately show ?thesis
    using thrown read_show_nat [of "status r"] by blast
qed

theorem error_status_is_reported_witness:
  "handleSubmit (fixed_env (text_response 429 ''slow down'') pending_response) example_state =
     answered_directly
       (JStr ''Server error (Status 429): Too many requests, please try again later'') example_state
   \<and> status_queries
       (trace (handleSubmit (fixed_env (text_response 429 ''slow down'') pending_response) example_state)) = 0"
proof -
  let ?e = "fixed_env (text_response 429 ''slow down'') pending_response"
  have nonblank: "trim (input example_state) \<noteq> []"
    by (simp add: example_state_def setInput_def initial_state_def trim_def is_white_space_def)
  have sub: "submit_fetch ?e (build_request example_state) = Resolved (text_response 429 ''slow down'')"
    by (simp add: fixed_env_def)
  have bad: "\<not> ok (text_response 429 ''slow down'')"
    by (simp add: ok_def text_response_def)
  have msg: "''Server error (Status '' @ show_nat (status (text_response 429 ''slow down'')) @ ''): '' @
      status_reason (status (text_response 429 ''slow down'')) =
      ''Server error (Status 429): Too many requests, please try again later''"
    by (simp add: text_response_def show_nat.simps digit_char_def status_reason_def)
  have none: "status_queries (trace example_state) = 0"
    by (simp add: example_state_def initial_state_def setInput_def status_queries_def)
  from error_status_is_reported [OF nonblank sub bad] show ?thesis
    unfolding msg none by (simp add: status_queries_answered_directly none)
qed

subsection \<open>C5: the conversation is append-only\<close>

text \<open>
  C5. Every operation of the cycle leaves the messages as they are or extends them at the
  end: the messages before \<^verbatim>\<open>handleSubmit\<close> or \<^verbatim>\<open>pollForResponse\<close> are a prefix of the
  messages after it, \<^verbatim>\<open>setInput\<close> does not touch them, and so the length never decreases.
\<close>

theorem conversation_is_append_only:
  "prefix (messages s) (messages (handleSubmit e s))
   \<and> prefix (messages s) (messages (pollForResponse e mid k s))
   \<and> messages (setInput v s) = messages s
   \<and> length (messages s) \<le> length (messages (handleSubmit e s))
   \<and> length (messages s) \<le> length (messages (pollForResponse e mid k s))"
  using pollForResponse_messages_prefix [of s e mid k] handleSubmit_messages_prefix [of s e]
  by (simp add: setInput_def prefix_length_le)

subsection \<open>C2: the history sent with a submission\<close>

text \<open>
  C2. A submission sends exactly one request. Its \<^verbatim>\<open>conversation_history\<close> is the
  conversation as it was before the submitted message was appended: when the submitted
  message is message \<open>N\<close> of the conversation (index \<open>N - 1\<close>), the history is the first
  \<open>N - 1\<close> messages in their order, each as its role (\<^verbatim>\<open>user\<close> for a user message,
  \<^verbatim>\<open>assistant\<close> for a bot message) and its content. The submitted message is not part of
  the history; it is the \<^verbatim>\<open>message\<close> field of the request.
\<close>

theorem history_is_the_prior_conversation:
  assumes "trim (input s) \<noteq> []"
  shows "(\<exists>evs fin. trace (handleSubmit e s) =
            trace s @ [Appended (user_message s), Post (build_request s)] @ evs @ fin
          \<and> list_all is_poll_event evs
          \<and> (fin = [] \<or> (\<exists>b. fin = [Appended b])))
    \<and> messages (handleSubmit e s) ! length (messages s) = user_message s
    \<and> conversation_history (build_request s) =
        map to_history_entry (take (length (messages s)) (messages (handleSubmit e s)))
    \<and> length (conversation_history (build_request s)) = length (messages s)
    \<and> map role (conversation_history (build_request s)) =
        map (\<lambda>m. case mtype m of User \<Rightarrow> ''user'' | Bot \<Rightarrow> ''assistant'') (messages s)
    \<and> map entry_content (conversation_history (build_request s)) = map content (messages s)
    \<and> req_message (build_request s) = input s"
proof -
  from cycle_shape [OF assms, of e] obtain evs fin rest where
    m: "messages (handleSubmit e s) = messages s @ user_message s # rest" and
    t: "trace (handleSubmit e s) =
          trace s @ [Appended (user_message s), Post (build_request s)] @ evs @ fin" and
    p: "list_all is_poll_event evs" and
    f: "fin = [] \<or> (\<exists>b. fin = [Appended b])"
  proof (elim disjE exE conjE)
    fix b evs
    assume "messages (handleSubmit e s) = messages s @ [user_message s, b]"
      "trace (handleSubmit e s) =
        trace s @ [Appended (user_message s), Post (build_request s)] @ evs @ [Appended b]"
      "list_all is_poll_event evs"
    then show ?thesis
      by (intro that [of "[b]" evs "[Appended b]"]) simp_all
  next
    fix err evs
    assume "messages (handleSubmit e s) = messages s @ [user_message s]"
      "trace (handleSubmit e s) =
        trace s @ [Appended (user_message s), Post (build_request s)] @ evs"
      "list_all is_poll_event evs"
    then show ?thesis
      by (intro that [of "[]" evs "[]"]) simp_all
  qed
  have roles: "map role (conversation_history (build_request s)) =
        map (\<lambda>m. case mtype m of User \<Rightarrow> ''user'' | Bot \<Rightarrow> ''assistant'') (messages s)"
    by (simp add: build_request_def to_history_entry_def comp_def split: msg_type.split)
  have contents: "map entry_content (conversation_history (build_request s)) = map content (messages s)"
    by (simp add: build_request_def to_history_entry_def comp_def)
  from t p f have "\<exists>evs fin. trace (handleSubmit e s) =
            trace s @ [Appended (user_message s), Post (build_request s)] @ evs @ fin
          \<and> list_all is_poll_event evs
          \<and> (fin = [] \<or> (\<exists>b. fin = [Appended b]))"
    by blast
  moreover have "messages (handleSubmit e s) ! length (messages s) = user_message s"
    by (simp add: m)
  moreover have "conversation_history (build_request s) =
        map to_history_entry (take (length (messages s)) (messages (handleSubmit e s)))"
    by (simp add: m build_request_def)
  moreover have "length (conversation_history (build_request s)) = length (messages s)"
    by (simp add: build_request_def)
  moreover have "req_message (build_request s) = input s"
    by (simp add: build_request_def)
  ultimately show ?thesis
    using roles contents by blast
qed

theorem history_is_the_prior_conversation_witness:
  "conversation_history (build_request example_state) =
     [\<lparr>role = ''assistant'', entry_content = JStr greeting\<rparr>]
   \<and> messages (handleSubmit offline_env example_state) ! 1 =
       \<lparr>mtype = User, content = JStr ''hello'', timestamp = 0\<rparr>"
proof -
  have nonblank: "trim (input example_state) \<noteq> []"
    by (simp add: example_state_def setInput_def initial_state_def trim_def is_white_space_def)
  have len: "length (messages example_state) = 1"
    by (simp add: example_state_def setInput_def initial_state_def)
  have um: "user_message example_state = \<lparr>mtype = User, content = JStr ''hello'', timestamp = 0\<rparr>"
    by (simp add: user_message_def example_state_def setInput_def initial_state_def)
  have h: "conversation_history (build_request example_state) =
     [\<lparr>role = ''assistant'', entry_content = JStr greeting\<rparr>]"
    by (simp add: build_request_def example_state_def setInput_def initial_state_def
        to_history_entry_def)
  from history_is_the_prior_conversation [OF nonblank, of offline_env]
  have "messages (handleSubmit offline_env example_state) ! length (messages example_state) =
      user_message example_state"
    by blast
  with h show ?thesis
    unfolding len um by simp
qed

subsection \<open>C8: an error that the cycle does not recover\<close>

text \<open>
  C8 does not hold of the code. When the job is accepted and the status endpoint gives a
  final answer with the JSON body \<^verbatim>\<open>null\<close>, the \<^verbatim>\<open>try\<close> block of \<^verbatim>\<open>pollForResponse\<close> ends
  without an error, and the TypeError of \<^verbatim>\<open>responseData.response\<close> is thrown later, when
  React runs the updater of lines 74 to 78. The \<^verbatim>\<open>catch\<close> block of lines 79 to 85 does not
  run: the cycle appends the user's message and no bot message, and the error escapes.
\<close>

theorem null_reply_is_fatal_to_the_cycle:
  "handleSubmit (fixed_env job_response (json_response 200 JNull)) example_state =
     example_state
       \<lparr>messages := messages example_state @ [user_message example_state],
        input := [],
        isTyping := False,
        trace := [Appended (user_message example_state), Post (build_request example_state),
                  StatusQuery (JStr ''job-1'')],
        uncaught := Some (Error (null_property_message ''response''))\<rparr>
   \<and> map content (messages (handleSubmit (fixed_env job_response (json_response 200 JNull))
        example_state)) = [JStr greeting, JStr ''hello'']"
proof -
  let ?e = "fixed_env job_response (json_response 200 JNull)"
  let ?s1 = "log_event (Post (build_request example_state))
               ((append_message (user_message example_state) example_state)
                  \<lparr>input := [], isTyping := True\<rparr>)"
  have nonblank: "trim (input example_state) \<noteq> []"
    by (simp add: example_state_def setInput_def initial_state_def trim_def is_white_space_def)
  have polled: "submit_try ?e (build_request example_state) ?s1 =
      Inr (pollForResponse ?e (JStr ''job-1'') 0 ?s1)"
    by (simp add: submit_try_def fixed_env_def job_response_def json_response_def ok_def
        contentType_def)
  have escaped: "pollForResponse ?e (JStr ''job-1'') 0 ?s1 =
      updater_throws (Error (null_property_message ''response''))
        ((log_event (StatusQuery (JStr ''job-1'')) ?s1)\<lparr>isTyping := False\<rparr>)"
    by (simp add: pollForResponse.simps [of _ _ 0] fixed_env_def json_response_def
        response_data_def contentType_def reply_content_def)
  have run: "handleSubmit ?e example_state =
     example_state
       \<lparr>messages := messages example_state @ [user_message example_state],
        input := [],
        isTyping := False,
        trace := [Appended (user_message example_state), Post (build_request example_state),
                  StatusQuery (JStr ''job-1'')],
        uncaught := Some (Error (null_property_message ''response''))\<rparr>"
    unfolding handleSubmit_unfold [OF nonblank] polled escaped
    by (simp add: updater_throws_def log_event_def append_message_def)
       (simp add: example_state_def setInput_def initial_state_def)
  have "map content (messages (handleSubmit ?e example_state)) = [JStr greeting, JStr ''hello'']"
    unfolding run
    by (simp add: user_message_def example_state_def setInput_def initial_state_def)
  with run show ?thesis by simp
qed

subsection \<open>C10: the greeting\<close>

text \<open>
  C10. The conversation starts as the one bot greeting. The history sent with the first
  submission is therefore that greeting with role \<^verbatim>\<open>assistant\<close>, not the empty list, and
  that request is the first thing sent. In every reachable state the conversation is
  non-empty.
\<close>

theorem conversation_starts_with_greeting:
  "messages (initial_state t0) = [\<lparr>mtype = Bot, content = JStr greeting, timestamp = t0\<rparr>]
   \<and> conversation_history (build_request (setInput v (initial_state t0))) =
       [\<lparr>role = ''assistant'', entry_content = JStr greeting\<rparr>]
   \<and> (trim v \<noteq> [] \<longrightarrow>
       (\<exists>rest. trace (handleSubmit e (setInput v (initial_state t0))) =
          Appended (user_message (setInput v (initial_state t0))) #
          Post (build_request (setInput v (initial_state t0))) # rest))
   \<and> (reachable s \<longrightarrow> messages s \<noteq> [])"
proof -
  let ?s = "setInput v (initial_state t0)"
  have "trim v \<noteq> [] \<longrightarrow>
       (\<exists>rest. trace (handleSubmit e ?s) = Appended (user_message ?s) # Post (build_request ?s) # rest)"
  proof
    assume "trim v \<noteq> []"
    then have "trim (input ?s) \<noteq> []" by (simp add: setInput_def)
    from cycle_shape [OF this, of e] obtain evs where
      "trace (handleSubmit e ?s) =
         trace ?s @ [Appended (user_message ?s), Post (build_request ?s)] @ evs"
      by auto
    moreover have "trace ?s = []" by (simp add: setInput_def initial_state_def)
    ultimately show "\<exists>rest. trace (handleSubmit e ?s) =
        Appended (user_message ?s) # Post (build_request ?s) # rest"
      by simp
  qed
  moreover have "messages (initial_state t0) = [\<lparr>mtype = Bot, content = JStr greeting, timestamp = t0\<rparr>]"
    by (simp add: initial_state_def)
  moreover have "conversation_history (build_request ?s) =
       [\<lparr>role = ''assistant'', entry_content = JStr greeting\<rparr>]"
    by (simp add: build_request_def setInput_def initial_state_def to_history_entry_def)
  moreover have "reachable s \<longrightarrow> messages s \<noteq> []"
    using reachable_messages_nonempty by blast
  ultimately show ?thesis by blast
qed

theorem conversation_starts_with_greeting_witness:
  "reachable (handleSubmit offline_env example_state)
   \<and> messages (handleSubmit offline_env example_state) \<noteq> []
   \<and> trim ''hello'' \<noteq> []
   \<and> take 2 (trace (handleSubmit offline_env example_state)) =
       [Appended \<lparr>mtype = User, content = JStr ''hello'', timestamp = 0\<rparr>,
        Post \<lparr>req_message = ''hello'', req_timestamp = 0,
              conversation_history = [\<lparr>role = ''assistant'', entry_content = JStr greeting\<rparr>]\<rparr>]"
proof -
  have r: "reachable (handleSubmit offline_env example_state)"
    unfolding example_state_def by (intro reachable.intros)
  have nonblank: "trim ''hello'' \<noteq> []"
    by (simp add: trim_def is_white_space_def)
  note c = conversation_starts_with_greeting
    [of 0 "''hello''" offline_env "handleSubmit offline_env example_state"]
  from c r have ne: "messages (handleSubmit offline_env example_state) \<noteq> []"
    by blast
  from c nonblank obtain rest where
    "trace (handleSubmit offline_env (setInput ''hello'' (initial_state 0))) =
       Appended (user_message (setInput ''hello'' (initial_state 0))) #
       Post (build_request (setInput ''hello'' (initial_state 0))) # rest"
    by blast
  then have "take 2 (trace (handleSubmit offline_env example_state)) =
       [Appended \<lparr>mtype = User, content = JStr ''hello'', timestamp = 0\<rparr>,
        Post \<lparr>req_message = ''hello'', req_timestamp = 0,
              conversation_history = [\<lparr>role = ''assistant'', entry_content = JStr greeting\<rparr>]\<rparr>]"
    by (simp add: example_state_def user_message_def build_request_def setInput_def
        initial_state_def to_history_entry_def)
  with r ne nonblank show ?thesis by simp
qed

subsection \<open>C6: a structured answer without a job identifier\<close>

text \<open>
  C6, as stated, fails for the JSON body \<^verbatim>\<open>null\<close>: it has no job identifier, but reading
  \<^verbatim>\<open>data.messageId\<close> throws a TypeError before line 142 is reached, so the failure shown
  is that TypeError and not the missing-identifier error.
\<close>

theorem null_body_is_not_no_job_id:
  "ok (json_response 200 JNull)
   \<and> str_includes (contentType (json_response 200 JNull)) ''application/json''
   \<and> body_json (json_response 200 JNull) = Inr JNull
   \<and> \<not> has_prop JNull ''messageId''
   \<and> handleSubmit (fixed_env (json_response 200 JNull) pending_response) example_state =
       answered_directly (JStr (null_property_message ''messageId'')) example_state
   \<and> null_property_message ''messageId'' \<noteq> no_message_id_text"
proof -
  have nonblank: "trim (input example_state) \<noteq> []"
    by (simp add: example_state_def setInput_def initial_state_def trim_def is_white_space_def)
  have "handleSubmit (fixed_env (json_response 200 JNull) pending_response) example_state =
       answered_directly (JStr (null_property_message ''messageId'')) example_state"
    by (rule handleSubmit_caught [OF nonblank])
       (simp add: submit_try_def fixed_env_def json_response_def ok_def contentType_def)
  moreover have "null_property_message ''messageId'' \<noteq> no_message_id_text"
    by (simp add: null_property_message_def no_message_id_text_def)
  ultimately show ?thesis
    by (simp add: ok_def json_response_def contentType_def)
qed

text \<open>
  C6, amended. If the submission is answered with a 2xx status and a JSON content type,
  and the parsed body is not \<^verbatim>\<open>null\<close> and has no \<^verbatim>\<open>messageId\<close> property, the \<^verbatim>\<open>try\<close>
  block throws the error \<^verbatim>\<open>No messageId received in the response\<close>; no status query is
  made, and the error message is appended as the one bot message.
\<close>

theorem missing_job_id_fails:
  assumes "trim (input s) \<noteq> []"
    and "submit_fetch e (build_request s) = Resolved r"
    and "ok r"
    and "str_includes (contentType r) ''application/json''"
    and "body_json r = Inr data"
    and "data \<noteq> JNull"
    and "\<not> has_prop data ''messageId''"
  shows "(\<forall>s1. submit_try e (build_request s) s1 = Inl (Error no_message_id_text))
    \<and> handleSubmit e s = answered_directly (JStr no_message_id_text) s
    \<and> status_queries (trace (handleSubmit e s)) = status_queries (trace s)"
proof -
  have absent: "get_prop data ''messageId'' = Inr None"
    using assms(6,7) by (rule get_prop_absent)
  have thrown: "submit_try e (build_request s) s1 = Inl (Error no_message_id_text)" for s1
    using assms(2-5) absent by (simp add: submit_try_def)
  have "handleSubmit e s = answered_directly (JStr no_message_id_text) s"
    by (rule handleSubmit_caught [OF assms(1) thrown])
  moreover from this have "status_queries (trace (handleSubmit e s)) = status_queries (trace s)"
    by (simp add: status_queries_answered_directly)
  ultimately show ?thesis
    using thrown by blast
qed

theorem missing_job_id_fails_witness:
  "handleSubmit (fixed_env (json_response 200 (JObj [])) pending_response) example_state =
     answered_directly (JStr ''No messageId received in the response'') example_state"
proof -
  let ?r = "json_response 200 (JObj [])"
  have nonblank: "trim (input example_state) \<noteq> []"
    by (simp add: example_state_def setInput_def initial_state_def trim_def is_white_space_def)
  have sub: "submit_fetch (fixed_env ?r pending_response) (build_request example_state) = Resolved ?r"
    by (simp add: fixed_env_def)
  have okr: "ok ?r" by (simp add: ok_def json_response_def)
  have js: "str_includes (contentType ?r) ''application/json''"
    by (simp add: contentType_def json_response_def)
  have body: "body_json ?r = Inr (JObj [])" by (simp add: json_response_def)
  have nn: "JObj [] \<noteq> JNull" by simp
  have np: "\<not> has_prop (JObj []) ''messageId''" by simp
  from missing_job_id_fails [OF nonblank sub okr js body nn np] show ?thesis
    by (simp add: no_message_id_text_def)
qed

subsection \<open>C7: a final status answer without a content\<close>

text \<open>
  C7 does not hold of the code for the JSON body \<^verbatim>\<open>null\<close>. It is a final, structured
  answer without a reply content, and line 76 means to fall back on the placeholder; but
  \<^verbatim>\<open>responseData.response\<close> throws a TypeError there, inside the updater, where the
  \<^verbatim>\<open>catch\<close> block does not reach. The poll cycle makes its one status query and ends
  with the messages as they were: neither the placeholder nor any other bot message is
  appended, and the error escapes.
\<close>

theorem null_reply_escapes_the_poller:
  "status (json_response 200 JNull) \<noteq> 202
   \<and> str_includes (contentType (json_response 200 JNull)) ''application/json''
   \<and> body_json (json_response 200 JNull) = Inr JNull
   \<and> \<not> has_reply_content JNull
   \<and> pollForResponse (fixed_env job_response (json_response 200 JNull)) (JStr ''job-1'') 0
        example_state =
       example_state
         \<lparr>isTyping := False,
          trace := [StatusQuery (JStr ''job-1'')],
          uncaught := Some (Error (null_property_message ''response''))\<rparr>
   \<and> messages (pollForResponse (fixed_env job_response (json_response 200 JNull)) (JStr ''job-1'') 0
        example_state) = messages example_state"
proof -
  have run: "pollForResponse (fixed_env job_response (json_response 200 JNull)) (JStr ''job-1'') 0
      example_state =
       example_state
         \<lparr>isTyping := False,
          trace := [StatusQuery (JStr ''job-1'')],
          uncaught := Some (Error (null_property_message ''response''))\<rparr>"
    by (simp add: pollForResponse.simps [of _ _ 0] fixed_env_def json_response_def
        response_data_def contentType_def reply_content_def updater_throws_def log_event_def)
       (simp add: example_state_def setInput_def initial_state_def)
  have "messages (pollForResponse (fixed_env job_response (json_response 200 JNull)) (JStr ''job-1'') 0
        example_state) = messages example_state"
    unfolding run by simp
  with run show ?thesis
    by (simp add: json_response_def contentType_def)
qed

end
